theory Spec2Isabelle
  imports Main "HOL-Library.Word"
begin

section \<open>Platform types\<close>

text \<open>
  \<^verbatim>\<open>include/hal/ia32/processor_bind.h\<close>: \<^verbatim>\<open>uint8\<close> is an unsigned char,
  \<^verbatim>\<open>uint32\<close> an unsigned int, \<^verbatim>\<open>int32\<close> an int, and the native-width types
  are \<^verbatim>\<open>typedef uint32 uintn\<close> and \<^verbatim>\<open>typedef int32 intn\<close>. A \<^verbatim>\<open>boolean\<close>
  is an unsigned char too. Arithmetic on these types wraps around.
\<close>

type_synonym uint8 = "8 word"
type_synonym uint32 = "32 word"
type_synonym int32 = "32 word"
type_synonym uintn = "32 word"
type_synonym intn = "32 word"
type_synonym boolean = "8 word"

text \<open>
  Modelled from the spec: the macros \<^verbatim>\<open>TRUE\<close> and \<^verbatim>\<open>FALSE\<close> of the base header,
  which is not among the sources; a \<^verbatim>\<open>boolean\<close> is 1 for true and 0 for false.
\<close>

definition TRUE :: boolean where
  "TRUE = 1"

definition FALSE :: boolean where
  "FALSE = 0"

text \<open>
  Modelled from the spec: the \<^verbatim>\<open>return_status\<close> codes (section 7, the error
  taxonomy), restricted to the four values the documented return values of the modelled
  functions name. Their numeric encoding is declared outside the sources.
\<close>

datatype return_status =
  RETURN_SUCCESS
  | RETURN_BUFFER_TOO_SMALL
  | RETURN_DEVICE_ERROR
  | RETURN_SECURITY_VIOLATION

text \<open>
  What stops a function before it returns: a violated \<^verbatim>\<open>ASSERT\<close> in a build whose
  assertions halt, a memory access outside the buffer it was given, and a read through a
  \<^verbatim>\<open>NULL\<close> pointer.
\<close>

datatype fault = Assert_failed | Out_of_bounds | Null_dereference

text \<open>
  \<^verbatim>\<open>ASSERT (expression)\<close> is a macro of the debug library, declared outside the
  sources. It has no effect when the expression holds. When it does not hold, the macro
  hands over to \<^verbatim>\<open>debug_assert\<close>, which either stops the program or (assertions
  compiled out, null debug library) comes back, after which execution continues. Which of
  the two happens is a property of the build: the parameter \<open>halting\<close>.
\<close>

definition ASSERT :: "bool \<Rightarrow> bool \<Rightarrow> fault + unit" where
  "ASSERT halting expression = (if halting \<and> \<not> expression then Inl Assert_failed else Inr ())"

text \<open>
  Modelled from the spec: \<^verbatim>\<open>copy_mem (destination, source, length)\<close> of the memory
  library, whose body is not among the sources. Section 4.4 has the handler cache the
  original request with it: it copies \<open>length\<close> bytes from the start of the source
  buffer to the start of the destination buffer. Buffers are byte lists as long as their
  storage; a copy that would read or write past the end of either is the fault
  \<open>Out_of_bounds\<close>.
\<close>

definition copy_mem :: "uint8 list \<Rightarrow> uint8 list \<Rightarrow> uintn \<Rightarrow> fault + uint8 list" where
  "copy_mem destination source len =
     (if unat len \<le> length source \<and> unat len \<le> length destination
      then Inr (take (unat len) source @ drop (unat len) destination)
      else Inl Out_of_bounds)"

section \<open>SPDM constants\<close>

text \<open>
  Modelled from the spec: the message codes of the SPDM header file, which is not among
  the sources. Section 6 fixes the wire format as that of DMTF DSP0274, whose values
  these are.
\<close>

definition SPDM_MESSAGE_VERSION_11 :: uint8 where
  "SPDM_MESSAGE_VERSION_11 = 0x11"

definition SPDM_ERROR :: uint8 where
  "SPDM_ERROR = 0x7F"

definition SPDM_RESPOND_IF_READY :: uint8 where
  "SPDM_RESPOND_IF_READY = 0xFF"

definition SPDM_ERROR_CODE_BUSY :: uint8 where
  "SPDM_ERROR_CODE_BUSY = 0x03"

definition SPDM_ERROR_CODE_REQUEST_IN_FLIGHT :: uint8 where
  "SPDM_ERROR_CODE_REQUEST_IN_FLIGHT = 0x08"

definition SPDM_ERROR_CODE_RESPONSE_NOT_READY :: uint8 where
  "SPDM_ERROR_CODE_RESPONSE_NOT_READY = 0x42"

definition SPDM_ERROR_CODE_REQUEST_RESYNCH :: uint8 where
  "SPDM_ERROR_CODE_REQUEST_RESYNCH = 0x43"

text \<open>
  Modelled from the spec: \<^verbatim>\<open>sizeof (spdm_error_response_t)\<close>, a structure declared
  outside the sources. By section 4.1 the error response is the four-byte message
  header (\<open>spdm_version\<close>, \<open>request_response_code\<close>, \<open>param1\<close>, \<open>param2\<close>) and nothing
  else; extended error data follows it.
\<close>

definition sizeof_spdm_error_response_t :: uintn where
  "sizeof_spdm_error_response_t = 4"

section \<open>The responder's context\<close>

text \<open>
  Modelled from the spec: the states of section 3. The enumerations are declared in
  headers outside the sources.
\<close>

datatype spdm_response_state_t =
  SPDM_RESPONSE_STATE_NORMAL
  | SPDM_RESPONSE_STATE_BUSY
  | SPDM_RESPONSE_STATE_NOT_READY
  | SPDM_RESPONSE_STATE_NEED_RESYNC
  | SPDM_RESPONSE_STATE_PROCESSING_ENCAP

datatype spdm_connection_state_t =
  SPDM_CONNECTION_STATE_NOT_STARTED
  | SPDM_CONNECTION_STATE_AFTER_VERSION
  | SPDM_CONNECTION_STATE_AFTER_CAPABILITIES
  | SPDM_CONNECTION_STATE_NEGOTIATED
  | SPDM_CONNECTION_STATE_AFTER_DIGESTS
  | SPDM_CONNECTION_STATE_AFTER_CERTIFICATE
  | SPDM_CONNECTION_STATE_AUTHENTICATED

text \<open>
  Modelled from the spec: \<^verbatim>\<open>spdm_error_data_response_not_ready_t\<close>, declared
  outside the sources: the extended error data of
  \<open>ERROR (RESPONSE_NOT_READY)\<close>, four bytes. The function below assigns its four fields
  by name and sends the structure as \<^verbatim>\<open>sizeof\<close> raw bytes; DSP0274 orders them
  RDExponent, RequestCode, Token, RDTM.
\<close>

record spdm_error_data_response_not_ready_t =
  rd_exponent :: uint8
  request_code :: uint8
  token :: uint8
  rd_tm :: uint8

definition error_data_bytes :: "spdm_error_data_response_not_ready_t \<Rightarrow> uint8 list" where
  "error_data_bytes e = [rd_exponent e, request_code e, token e, rd_tm e]"

definition sizeof_spdm_error_data_response_not_ready_t :: uintn where
  "sizeof_spdm_error_data_response_not_ready_t = 4"

text \<open>
  Modelled from the spec: \<^verbatim>\<open>spdm_context_t\<close>, declared outside the sources, with
  the fields the response-state handler reads or writes and the negotiated version of
  section 3. The two request buffers are byte lists as long as their storage.
\<close>

record spdm_context_t =
  version :: uint8
  connection_state :: spdm_connection_state_t
  response_state :: spdm_response_state_t
  current_token :: uint8
  error_data :: spdm_error_data_response_not_ready_t
  last_spdm_request :: "uint8 list"
  last_spdm_request_size :: uintn
  cache_spdm_request :: "uint8 list"
  cache_spdm_request_size :: uintn

section \<open>The responder's helpers\<close>

text \<open>
  Modelled from the spec: \<^verbatim>\<open>libspdm_generate_error_response\<close>, whose body is not
  among the sources. Section 4.1: every SPDM message begins with the four-byte header
  version, request_response_code, param1, param2; section 4.4: the responder replies
  \<open>ERROR (code)\<close>. The reply is the ERROR header with the context's version, the error
  code in \<open>param1\<close> and the error data in \<open>param2\<close>; the context is only read. The
  result is the reply's size and the reply.
\<close>

definition libspdm_generate_error_response ::
  "spdm_context_t \<Rightarrow> uint8 \<Rightarrow> uint8 \<Rightarrow> uintn \<Rightarrow> uint8 list \<Rightarrow> uintn \<times> uint8 list" where
  "libspdm_generate_error_response spdm_context error_code error_data_byte response_size response =
     (sizeof_spdm_error_response_t,
      [version spdm_context, SPDM_ERROR, error_code, error_data_byte])"

text \<open>
  Modelled from the spec: \<^verbatim>\<open>libspdm_generate_extended_error_response\<close>, whose body
  is not among the sources. Section 4.4: the reply is \<open>ERROR (code)\<close> with an
  extended-error payload, here the first \<open>extended_error_data_size\<close> bytes handed
  over, placed after the header.
\<close>

definition libspdm_generate_extended_error_response ::
  "spdm_context_t \<Rightarrow> uint8 \<Rightarrow> uint8 \<Rightarrow> uintn \<Rightarrow> uint8 list \<Rightarrow> uintn \<Rightarrow> uint8 list
     \<Rightarrow> uintn \<times> uint8 list" where
  "libspdm_generate_extended_error_response spdm_context error_code error_data_byte
       extended_error_data_size extended_error_data response_size response =
     (sizeof_spdm_error_response_t + extended_error_data_size,
      [version spdm_context, SPDM_ERROR, error_code, error_data_byte]
        @ take (unat extended_error_data_size) extended_error_data)"

text \<open>
  Modelled from the spec: \<^verbatim>\<open>spdm_set_connection_state\<close>, whose body is not among
  the sources. Section 4.4: \<open>NeedResync\<close> resets \<open>connection_state = NotStarted\<close>; the
  helper stores the state it is given.
\<close>

definition spdm_set_connection_state ::
  "spdm_context_t \<Rightarrow> spdm_connection_state_t \<Rightarrow> spdm_context_t" where
  "spdm_set_connection_state spdm_context new_state =
     spdm_context\<lparr>connection_state := new_state\<rparr>"

section \<open>spdm_responder_handle_response_state\<close>

text \<open>
  The result is the status, the context after the call, \<^verbatim>\<open>*response_size\<close> and the
  response. In the \<^verbatim>\<open>default\<close> case nothing is written: size and response come back
  as they went in.
\<close>

definition spdm_responder_handle_response_state ::
  "spdm_context_t \<Rightarrow> uint8 \<Rightarrow> uintn \<Rightarrow> uint8 list
     \<Rightarrow> fault + (return_status \<times> spdm_context_t \<times> uintn \<times> uint8 list)" where
  "spdm_responder_handle_response_state spdm_context req_code response_size response =
     (case response_state spdm_context of
        SPDM_RESPONSE_STATE_BUSY \<Rightarrow>
          (let (size', response') =
                 libspdm_generate_error_response spdm_context SPDM_ERROR_CODE_BUSY 0
                   response_size response
           in Inr (RETURN_SUCCESS, spdm_context, size', response'))
      | SPDM_RESPONSE_STATE_NEED_RESYNC \<Rightarrow>
          (let (size', response') =
                 libspdm_generate_error_response spdm_context SPDM_ERROR_CODE_REQUEST_RESYNCH 0
                   response_size response;
               ctx1 = spdm_set_connection_state spdm_context SPDM_CONNECTION_STATE_NOT_STARTED
           in Inr (RETURN_SUCCESS, ctx1, size', response'))
      | SPDM_RESPONSE_STATE_NOT_READY \<Rightarrow>
          (if req_code \<noteq> SPDM_RESPOND_IF_READY then
             (case copy_mem (cache_spdm_request spdm_context) (last_spdm_request spdm_context)
                     (last_spdm_request_size spdm_context) of
                Inl f \<Rightarrow> Inl f
              | Inr cache' \<Rightarrow>
                  (let ctx1 = spdm_context
                         \<lparr>cache_spdm_request_size := last_spdm_request_size spdm_context,
                          cache_spdm_request := cache'\<rparr>;
                       ctx2 = ctx1\<lparr>error_data := (error_data ctx1)\<lparr>rd_exponent := 1\<rparr>\<rparr>;
                       ctx3 = ctx2\<lparr>error_data := (error_data ctx2)\<lparr>rd_tm := 1\<rparr>\<rparr>;
                       ctx4 = ctx3\<lparr>error_data := (error_data ctx3)\<lparr>request_code := req_code\<rparr>\<rparr>;
                       ctx5 = ctx4\<lparr>error_data := (error_data ctx4)\<lparr>token := current_token ctx4\<rparr>,
                                   current_token := current_token ctx4 + 1\<rparr>;
                       (size', response') =
                         libspdm_generate_extended_error_response ctx5
                           SPDM_ERROR_CODE_RESPONSE_NOT_READY 0
                           sizeof_spdm_error_data_response_not_ready_t
                           (error_data_bytes (error_data ctx5)) response_size response
                   in Inr (RETURN_SUCCESS, ctx5, size', response')))
           else
             (let (size', response') =
                    libspdm_generate_extended_error_response spdm_context
                      SPDM_ERROR_CODE_RESPONSE_NOT_READY 0
                      sizeof_spdm_error_data_response_not_ready_t
                      (error_data_bytes (error_data spdm_context)) response_size response
              in Inr (RETURN_SUCCESS, spdm_context, size', response')))
      | SPDM_RESPONSE_STATE_PROCESSING_ENCAP \<Rightarrow>
          (let (size', response') =
                 libspdm_generate_error_response spdm_context SPDM_ERROR_CODE_REQUEST_IN_FLIGHT 0
                   response_size response
           in Inr (RETURN_SUCCESS, spdm_context, size', response'))
      | SPDM_RESPONSE_STATE_NORMAL \<Rightarrow>
          Inr (RETURN_SUCCESS, spdm_context, response_size, response))"

section \<open>Encapsulated error responses of the requester\<close>

text \<open>
  A store through a pointer into a buffer: one byte at an offset. Outside the buffer's
  storage it is the fault \<open>Out_of_bounds\<close>.
\<close>

definition write_uint8 :: "uint8 list \<Rightarrow> nat \<Rightarrow> uint8 \<Rightarrow> fault + uint8 list" where
  "write_uint8 buffer offset v =
     (if offset < length buffer then Inr (buffer[offset := v]) else Inl Out_of_bounds)"

text \<open>
  The four assignments to \<^verbatim>\<open>spdm_response->header\<close>: \<open>spdm_version\<close>,
  \<open>request_response_code\<close>, \<open>param1\<close> and \<open>param2\<close> are the bytes 0 to 3 of the
  response buffer.
\<close>

definition write_error_header ::
  "uint8 list \<Rightarrow> uint8 \<Rightarrow> uint8 \<Rightarrow> fault + uint8 list" where
  "write_error_header response error_code error_data_byte =
     (case write_uint8 response 0 SPDM_MESSAGE_VERSION_11 of
        Inl f \<Rightarrow> Inl f
      | Inr r1 \<Rightarrow>
     (case write_uint8 r1 1 SPDM_ERROR of
        Inl f \<Rightarrow> Inl f
      | Inr r2 \<Rightarrow>
     (case write_uint8 r2 2 error_code of
        Inl f \<Rightarrow> Inl f
      | Inr r3 \<Rightarrow> write_uint8 r3 3 error_data_byte)))"

text \<open>
  \<^verbatim>\<open>spdm_generate_encap_error_response\<close>. The context pointer is not used. The
  result is the status, \<^verbatim>\<open>*response_size\<close> and the response buffer after the call.
\<close>

definition spdm_generate_encap_error_response ::
  "bool \<Rightarrow> 'c \<Rightarrow> uint8 \<Rightarrow> uint8 \<Rightarrow> uintn \<Rightarrow> uint8 list
     \<Rightarrow> fault + (return_status \<times> uintn \<times> uint8 list)" where
  "spdm_generate_encap_error_response halting context error_code error_data_byte
       response_size response =
     (case ASSERT halting (response_size \<ge> sizeof_spdm_error_response_t) of
        Inl f \<Rightarrow> Inl f
      | Inr _ \<Rightarrow>
          (case write_error_header response error_code error_data_byte of
             Inl f \<Rightarrow> Inl f
           | Inr response' \<Rightarrow> Inr (RETURN_SUCCESS, sizeof_spdm_error_response_t, response')))"

text \<open>
  \<^verbatim>\<open>spdm_generate_encap_extended_error_response\<close>. The sum
  \<^verbatim>\<open>sizeof (spdm_error_response_t) + extended_error_data_size\<close> is a \<^verbatim>\<open>uintn\<close> sum;
  \<^verbatim>\<open>spdm_response + 1\<close> points at the byte after the four-byte header.
\<close>

definition spdm_generate_encap_extended_error_response ::
  "bool \<Rightarrow> 'c \<Rightarrow> uint8 \<Rightarrow> uint8 \<Rightarrow> uintn \<Rightarrow> uint8 list \<Rightarrow> uintn \<Rightarrow> uint8 list
     \<Rightarrow> fault + (return_status \<times> uintn \<times> uint8 list)" where
  "spdm_generate_encap_extended_error_response halting context error_code error_data_byte
       extended_error_data_size extended_error_data response_size response =
     (case ASSERT halting
             (response_size \<ge> sizeof_spdm_error_response_t + extended_error_data_size) of
        Inl f \<Rightarrow> Inl f
      | Inr _ \<Rightarrow>
          (case write_error_header response error_code error_data_byte of
             Inl f \<Rightarrow> Inl f
           | Inr r \<Rightarrow>
               (case copy_mem (drop 4 r) extended_error_data extended_error_data_size of
                  Inl f \<Rightarrow> Inl f
                | Inr tail \<Rightarrow>
                    Inr (RETURN_SUCCESS,
                         sizeof_spdm_error_response_t + extended_error_data_size,
                         take 4 r @ tail))))"

text \<open>The status a call returns, when it returns.\<close>

definition returned_status :: "fault + (return_status \<times> 'a) \<Rightarrow> return_status option" where
  "returned_status outcome = (case outcome of Inl f \<Rightarrow> None | Inr (status, rest) \<Rightarrow> Some status)"

section \<open>The dummy ChaCha20-Poly1305 of the size-measuring build\<close>

text \<open>
  \<^verbatim>\<open>aead_chacha20_poly1305_encrypt\<close> and \<^verbatim>\<open>aead_chacha20_poly1305_decrypt\<close> of the
  dummy crypto library. A pointer is \<open>None\<close> when it is \<^verbatim>\<open>NULL\<close>. The body is
  \<^verbatim>\<open>ASSERT (FALSE); return FALSE;\<close>: no out parameter is written. The result is the
  returned \<^verbatim>\<open>boolean\<close> with the tag buffer, the output buffer and the output size
  after the call.
\<close>

definition aead_chacha20_poly1305_encrypt ::
  "bool \<Rightarrow> uint8 list option \<Rightarrow> uintn \<Rightarrow> uint8 list option \<Rightarrow> uintn
     \<Rightarrow> uint8 list option \<Rightarrow> uintn \<Rightarrow> uint8 list option \<Rightarrow> uintn
     \<Rightarrow> uint8 list option \<Rightarrow> uintn \<Rightarrow> uint8 list option \<Rightarrow> uintn option
     \<Rightarrow> fault + (boolean \<times> uint8 list option \<times> uint8 list option \<times> uintn option)" where
  "aead_chacha20_poly1305_encrypt halting key key_size iv iv_size a_data a_data_size
       data_in data_in_size tag_out tag_size data_out data_out_size =
     (case ASSERT halting False of
        Inl f \<Rightarrow> Inl f
      | Inr _ \<Rightarrow> Inr (FALSE, tag_out, data_out, data_out_size))"

definition aead_chacha20_poly1305_decrypt ::
  "bool \<Rightarrow> uint8 list option \<Rightarrow> uintn \<Rightarrow> uint8 list option \<Rightarrow> uintn
     \<Rightarrow> uint8 list option \<Rightarrow> uintn \<Rightarrow> uint8 list option \<Rightarrow> uintn
     \<Rightarrow> uint8 list option \<Rightarrow> uintn \<Rightarrow> uint8 list option \<Rightarrow> uintn option
     \<Rightarrow> fault + (boolean \<times> uint8 list option \<times> uintn option)" where
  "aead_chacha20_poly1305_decrypt halting key key_size iv iv_size a_data a_data_size
       data_in data_in_size tag tag_size data_out data_out_size =
     (case ASSERT halting False of
        Inl f \<Rightarrow> Inl f
      | Inr _ \<Rightarrow> Inr (FALSE, data_out, data_out_size))"

section \<open>SHA-384 and SHA-512 over mbedTLS\<close>

text \<open>
  \<^verbatim>\<open>INT_MAX\<close> of the C library, an \<^verbatim>\<open>int\<close>; compared with a \<^verbatim>\<open>uintn\<close> it is
  converted to unsigned.
\<close>

definition INT_MAX :: uintn where
  "INT_MAX = 0x7FFFFFFF"

text \<open>
  mbedTLS is an external library: the two functions of it that the four wrappers call
  are parameters. \<open>'c\<close> is \<^verbatim>\<open>mbedtls_sha512_context\<close>.
  \<^verbatim>\<open>mbedtls_sha512_update_ret (ctx, input, ilen)\<close> gives its return code and the
  context after the call; \<^verbatim>\<open>mbedtls_sha512_ret (input, ilen, output, is384)\<close> gives
  its return code and the output buffer after the call. A pointer is \<open>None\<close> when it
  is \<^verbatim>\<open>NULL\<close>.
\<close>

record 'c mbedtls_sha512 =
  mbedtls_sha512_update_ret :: "'c \<Rightarrow> uint8 list option \<Rightarrow> uintn \<Rightarrow> int32 \<times> 'c"
  mbedtls_sha512_ret :: "uint8 list option \<Rightarrow> uintn \<Rightarrow> uint8 list \<Rightarrow> boolean \<Rightarrow> int32 \<times> uint8 list"

text \<open>The calls a wrapper makes into mbedTLS, with their arguments, in order.\<close>

datatype 'c mbedtls_call =
  Call_sha512_update_ret 'c "uint8 list option" uintn
  | Call_sha512_ret "uint8 list option" uintn "uint8 list" boolean

text \<open>
  \<^verbatim>\<open>sha384_update\<close>: the result is the returned \<^verbatim>\<open>boolean\<close>, the context behind
  the pointer after the call, and the calls made into mbedTLS.
\<close>

definition sha384_update ::
  "'c mbedtls_sha512 \<Rightarrow> 'c option \<Rightarrow> uint8 list option \<Rightarrow> uintn
     \<Rightarrow> boolean \<times> 'c option \<times> 'c mbedtls_call list" where
  "sha384_update lib sha384_context data data_size =
     (case sha384_context of
        None \<Rightarrow> (FALSE, None, [])
      | Some ctx \<Rightarrow>
          if data = None \<and> data_size \<noteq> 0 then (FALSE, Some ctx, [])
          else if data_size > INT_MAX then (FALSE, Some ctx, [])
          else
            (let (ret, ctx') = mbedtls_sha512_update_ret lib ctx data data_size
             in if ret \<noteq> 0
                then (FALSE, Some ctx', [Call_sha512_update_ret ctx data data_size])
                else (TRUE, Some ctx', [Call_sha512_update_ret ctx data data_size])))"

text \<open>
  \<^verbatim>\<open>sha384_hash_all\<close>: the result is the returned \<^verbatim>\<open>boolean\<close>, the hash buffer
  after the call, and the calls made into mbedTLS.
\<close>

definition sha384_hash_all ::
  "'c mbedtls_sha512 \<Rightarrow> uint8 list option \<Rightarrow> uintn \<Rightarrow> uint8 list option
     \<Rightarrow> boolean \<times> uint8 list option \<times> 'c mbedtls_call list" where
  "sha384_hash_all lib data data_size hash_value =
     (case hash_value of
        None \<Rightarrow> (FALSE, None, [])
      | Some out \<Rightarrow>
          if data = None \<and> data_size \<noteq> 0 then (FALSE, Some out, [])
          else if data_size > INT_MAX then (FALSE, Some out, [])
          else
            (let (ret, out') = mbedtls_sha512_ret lib data data_size out TRUE
             in if ret \<noteq> 0
                then (FALSE, Some out', [Call_sha512_ret data data_size out TRUE])
                else (TRUE, Some out', [Call_sha512_ret data data_size out TRUE])))"

text \<open>\<^verbatim>\<open>sha512_update\<close>.\<close>

definition sha512_update ::
  "'c mbedtls_sha512 \<Rightarrow> 'c option \<Rightarrow> uint8 list option \<Rightarrow> uintn
     \<Rightarrow> boolean \<times> 'c option \<times> 'c mbedtls_call list" where
  "sha512_update lib sha512_context data data_size =
     (case sha512_context of
        None \<Rightarrow> (FALSE, None, [])
      | Some ctx \<Rightarrow>
          if data = None \<and> data_size \<noteq> 0 then (FALSE, Some ctx, [])
          else if data_size > INT_MAX then (FALSE, Some ctx, [])
          else
            (let (ret, ctx') = mbedtls_sha512_update_ret lib ctx data data_size
             in if ret \<noteq> 0
                then (FALSE, Some ctx', [Call_sha512_update_ret ctx data data_size])
                else (TRUE, Some ctx', [Call_sha512_update_ret ctx data data_size])))"

text \<open>\<^verbatim>\<open>sha512_hash_all\<close>.\<close>

definition sha512_hash_all ::
  "'c mbedtls_sha512 \<Rightarrow> uint8 list option \<Rightarrow> uintn \<Rightarrow> uint8 list option
     \<Rightarrow> boolean \<times> uint8 list option \<times> 'c mbedtls_call list" where
  "sha512_hash_all lib data data_size hash_value =
     (case hash_value of
        None \<Rightarrow> (FALSE, None, [])
      | Some out \<Rightarrow>
          if data = None \<and> data_size \<noteq> 0 then (FALSE, Some out, [])
          else if data_size > INT_MAX then (FALSE, Some out, [])
          else
            (let (ret, out') = mbedtls_sha512_ret lib data data_size out FALSE
             in if ret \<noteq> 0
                then (FALSE, Some out', [Call_sha512_ret data data_size out FALSE])
                else (TRUE, Some out', [Call_sha512_ret data data_size out FALSE])))"

text \<open>
  A call into mbedTLS hands over no \<^verbatim>\<open>NULL\<close> that would be read or written: the
  context and the output buffer are there by construction, and the data pointer is
  \<^verbatim>\<open>NULL\<close> only together with the size 0; the size is at most \<^verbatim>\<open>INT_MAX\<close>.
\<close>

fun null_free_call :: "'c mbedtls_call \<Rightarrow> bool" where
  "null_free_call (Call_sha512_update_ret ctx data data_size) =
     ((data \<noteq> None \<or> data_size = 0) \<and> data_size \<le> INT_MAX)"
| "null_free_call (Call_sha512_ret data data_size out is384) =
     ((data \<noteq> None \<or> data_size = 0) \<and> data_size \<le> INT_MAX)"

text \<open>An mbedTLS stand-in for the examples: it succeeds and changes nothing.\<close>

definition example_mbedtls :: "nat mbedtls_sha512" where
  "example_mbedtls =
     \<lparr>mbedtls_sha512_update_ret = (\<lambda>ctx data data_size. (0, ctx)),
      mbedtls_sha512_ret = (\<lambda>data data_size out is384. (0, out))\<rparr>"

section \<open>Elliptic curve wrappers over OpenSSL\<close>

text \<open>
  The curve identifiers of OpenSSL (\<^verbatim>\<open>openssl/obj_mac.h\<close>), and the hash identifiers
  and digest sizes of the crypto library header, which is not among the sources.
\<close>

definition NID_X9_62_prime256v1 :: int32 where
  "NID_X9_62_prime256v1 = 415"

definition NID_secp384r1 :: int32 where
  "NID_secp384r1 = 715"

definition NID_secp521r1 :: int32 where
  "NID_secp521r1 = 716"

definition CRYPTO_NID_SHA256 :: uintn where
  "CRYPTO_NID_SHA256 = 0x0001"

definition CRYPTO_NID_SHA384 :: uintn where
  "CRYPTO_NID_SHA384 = 0x0002"

definition CRYPTO_NID_SHA512 :: uintn where
  "CRYPTO_NID_SHA512 = 0x0003"

definition SHA256_DIGEST_SIZE :: uintn where
  "SHA256_DIGEST_SIZE = 32"

definition SHA384_DIGEST_SIZE :: uintn where
  "SHA384_DIGEST_SIZE = 48"

definition SHA512_DIGEST_SIZE :: uintn where
  "SHA512_DIGEST_SIZE = 64"

text \<open>
  OpenSSL is an external library: the functions of it that the wrappers call are
  parameters. \<open>'k\<close> is \<^verbatim>\<open>EC_KEY\<close>, \<open>'g\<close> is \<^verbatim>\<open>EC_GROUP\<close>, \<open>'p\<close> is
  \<^verbatim>\<open>EC_POINT\<close>, a \<^verbatim>\<open>BIGNUM\<close> is the number it holds, and \<open>'w\<close> is what OpenSSL
  keeps outside its arguments (allocator, random generator): a call that allocates or
  draws random bits takes it and gives it back. \<^verbatim>\<open>BN_new\<close> says whether the
  allocation succeeded; \<^verbatim>\<open>EC_KEY_generate_key\<close> gives its return code and the key
  after the call; \<^verbatim>\<open>EC_POINT_get_affine_coordinates\<close> gives its return code and the
  two coordinates; \<^verbatim>\<open>BN_bn2bin\<close> gives the bytes it writes; \<^verbatim>\<open>ECDSA_do_sign\<close>
  gives the pair (r, s) of the signature, or \<open>None\<close> for \<^verbatim>\<open>NULL\<close>. The
  \<^verbatim>\<open>BN_free\<close> and \<^verbatim>\<open>ECDSA_SIG_free\<close> calls release memory and do not show in the
  results.
\<close>

record ('k, 'g, 'p, 'w) openssl =
  EC_KEY_get0_group :: "'k \<Rightarrow> 'g"
  EC_GROUP_get_curve_name :: "'g \<Rightarrow> int32"
  EC_KEY_generate_key :: "'w \<Rightarrow> 'k \<Rightarrow> int32 \<times> 'k \<times> 'w"
  EC_KEY_get0_public_key :: "'k \<Rightarrow> 'p option"
  BN_new :: "'w \<Rightarrow> bool \<times> 'w"
  EC_POINT_get_affine_coordinates :: "'g \<Rightarrow> 'p \<Rightarrow> int32 \<times> nat \<times> nat"
  BN_num_bytes :: "nat \<Rightarrow> intn"
  BN_bn2bin :: "nat \<Rightarrow> uint8 list"
  ECDSA_do_sign :: "'w \<Rightarrow> uint8 list \<Rightarrow> uint32 \<Rightarrow> 'k \<Rightarrow> (nat \<times> nat) option \<times> 'w"

text \<open>
  Modelled from the spec: \<^verbatim>\<open>zero_mem (buffer, length)\<close> of the memory library, whose
  body is not among the sources and on which the spec has no word beyond the name: it
  clears the first \<open>length\<close> bytes of the buffer. A store of several bytes at an offset
  is what \<^verbatim>\<open>BN_bn2bin\<close> does to its target. Outside the buffer's storage both are the
  fault \<open>Out_of_bounds\<close>.
\<close>

definition zero_mem :: "uint8 list \<Rightarrow> uintn \<Rightarrow> fault + uint8 list" where
  "zero_mem buffer len =
     (if unat len \<le> length buffer
      then Inr (replicate (unat len) 0 @ drop (unat len) buffer)
      else Inl Out_of_bounds)"

definition write_bytes :: "uint8 list \<Rightarrow> int \<Rightarrow> uint8 list \<Rightarrow> fault + uint8 list" where
  "write_bytes buffer offset bytes =
     (if 0 \<le> offset \<and> nat offset + length bytes \<le> length buffer
      then Inr (take (nat offset) buffer @ bytes @ drop (nat offset + length bytes) buffer)
      else Inl Out_of_bounds)"

text \<open>
  The \<^verbatim>\<open>switch (openssl_nid)\<close> that every wrapper repeats: the half size of the curve,
  or \<open>None\<close> for the \<^verbatim>\<open>default\<close> case, which returns \<open>FALSE\<close>.
\<close>

definition curve_half_size :: "int32 \<Rightarrow> uint8 option" where
  "curve_half_size openssl_nid =
     (if openssl_nid = NID_X9_62_prime256v1 then Some 32
      else if openssl_nid = NID_secp384r1 then Some 48
      else if openssl_nid = NID_secp521r1 then Some 66
      else None)"

text \<open>
  The part \<^verbatim>\<open>ec_get_pub_key\<close> and \<^verbatim>\<open>ec_generate_key\<close> share word for word, from
  \<^verbatim>\<open>EC_KEY_get0_public_key\<close> to the label \<^verbatim>\<open>done\<close>: the returned \<^verbatim>\<open>boolean\<close>, the
  buffer and OpenSSL's state after it. Here \<open>half_size\<close> is a \<^verbatim>\<open>uintn\<close> and the sizes
  of the coordinates are \<^verbatim>\<open>intn\<close>; the offsets \<^verbatim>\<open>0 + half_size - x_size\<close> are
  computed in \<^verbatim>\<open>uintn\<close>.
\<close>

definition ec_copy_public_point ::
  "('k, 'g, 'p, 'w) openssl \<Rightarrow> bool \<Rightarrow> 'w \<Rightarrow> 'k \<Rightarrow> uint8 list option \<Rightarrow> uintn \<Rightarrow> uintn
     \<Rightarrow> fault + (boolean \<times> uint8 list option \<times> 'w)" where
  "ec_copy_public_point ssl halting w ec_key public_key public_key_size half_size =
     (case EC_KEY_get0_public_key ssl ec_key of
        None \<Rightarrow> Inr (FALSE, public_key, w)
      | Some ec_point \<Rightarrow>
          (let (bn_x_ok, w1) = BN_new ssl w;
               (bn_y_ok, w2) = BN_new ssl w1
           in if \<not> bn_x_ok \<or> \<not> bn_y_ok then Inr (FALSE, public_key, w2)
              else
                (let (ret, x, y) =
                       EC_POINT_get_affine_coordinates ssl (EC_KEY_get0_group ssl ec_key) ec_point;
                     ret_val = (ucast ret :: boolean)
                 in if ret_val = 0 then Inr (ret_val, public_key, w2)
                    else
                      (let x_size = BN_num_bytes ssl x;
                           y_size = BN_num_bytes ssl y
                       in if sint x_size \<le> 0 \<or> sint y_size \<le> 0 then Inr (FALSE, public_key, w2)
                          else
                            (case ASSERT halting (x_size \<le> half_size \<and> y_size \<le> half_size) of
                               Inl f \<Rightarrow> Inl f
                             | Inr _ \<Rightarrow>
                                 (case public_key of
                                    None \<Rightarrow> Inr (TRUE, None, w2)
                                  | Some buffer \<Rightarrow>
                                      (case zero_mem buffer public_key_size of
                                         Inl f \<Rightarrow> Inl f
                                       | Inr b0 \<Rightarrow>
                                      (case write_bytes b0 (uint (0 + half_size - x_size))
                                              (BN_bn2bin ssl x) of
                                         Inl f \<Rightarrow> Inl f
                                       | Inr b1 \<Rightarrow>
                                      (case write_bytes b1 (uint (half_size + half_size - y_size))
                                              (BN_bn2bin ssl y) of
                                         Inl f \<Rightarrow> Inl f
                                       | Inr b2 \<Rightarrow> Inr (TRUE, Some b2, w2))))))))))"

text \<open>
  \<^verbatim>\<open>ec_get_pub_key\<close>. A pointer is \<open>None\<close> when it is \<^verbatim>\<open>NULL\<close>. The result is the
  returned \<^verbatim>\<open>boolean\<close>, the key buffer, \<^verbatim>\<open>*public_key_size\<close> and OpenSSL's state
  after the call.
\<close>

definition ec_get_pub_key ::
  "('k, 'g, 'p, 'w) openssl \<Rightarrow> bool \<Rightarrow> 'w \<Rightarrow> 'k option \<Rightarrow> uint8 list option \<Rightarrow> uintn option
     \<Rightarrow> fault + (boolean \<times> uint8 list option \<times> uintn option \<times> 'w)" where
  "ec_get_pub_key ssl halting w ec_context public_key public_key_size =
     (case ec_context of
        None \<Rightarrow> Inr (FALSE, public_key, public_key_size, w)
      | Some ec_key \<Rightarrow>
     (case public_key_size of
        None \<Rightarrow> Inr (FALSE, public_key, public_key_size, w)
      | Some size0 \<Rightarrow>
          if public_key = None \<and> size0 \<noteq> 0 then Inr (FALSE, public_key, public_key_size, w)
          else
            (case curve_half_size (EC_GROUP_get_curve_name ssl (EC_KEY_get0_group ssl ec_key)) of
               None \<Rightarrow> Inr (FALSE, public_key, public_key_size, w)
             | Some half \<Rightarrow>
                 (let half_size = (ucast half :: uintn)
                  in if size0 < half_size * 2
                     then Inr (FALSE, public_key, Some (half_size * 2), w)
                     else
                       (case ec_copy_public_point ssl halting w ec_key public_key
                               (half_size * 2) half_size of
                          Inl f \<Rightarrow> Inl f
                        | Inr (ret_val, public_key', w') \<Rightarrow>
                            Inr (ret_val, public_key', Some (half_size * 2), w'))))))"

text \<open>
  \<^verbatim>\<open>ec_generate_key\<close>. The key is generated before the curve is looked up and the
  size is compared. The result is the returned \<^verbatim>\<open>boolean\<close>, the EC context, the
  buffer, \<^verbatim>\<open>*public_size\<close> and OpenSSL's state after the call.
\<close>

definition ec_generate_key ::
  "('k, 'g, 'p, 'w) openssl \<Rightarrow> bool \<Rightarrow> 'w \<Rightarrow> 'k option \<Rightarrow> uint8 list option \<Rightarrow> uintn option
     \<Rightarrow> fault + (boolean \<times> 'k option \<times> uint8 list option \<times> uintn option \<times> 'w)" where
  "ec_generate_key ssl halting w ec_context public public_size =
     (case ec_context of
        None \<Rightarrow> Inr (FALSE, ec_context, public, public_size, w)
      | Some ec_key0 \<Rightarrow>
     (case public_size of
        None \<Rightarrow> Inr (FALSE, ec_context, public, public_size, w)
      | Some size0 \<Rightarrow>
          if public = None \<and> size0 \<noteq> 0 then Inr (FALSE, ec_context, public, public_size, w)
          else
            (let (ret, ec_key, w1) = EC_KEY_generate_key ssl w ec_key0
             in if (ucast ret :: boolean) = 0
                then Inr (FALSE, Some ec_key, public, public_size, w1)
                else
                  (case curve_half_size
                          (EC_GROUP_get_curve_name ssl (EC_KEY_get0_group ssl ec_key)) of
                     None \<Rightarrow> Inr (FALSE, Some ec_key, public, public_size, w1)
                   | Some half \<Rightarrow>
                       (let half_size = (ucast half :: uintn)
                        in if size0 < half_size * 2
                           then Inr (FALSE, Some ec_key, public, Some (half_size * 2), w1)
                           else
                             (case ec_copy_public_point ssl halting w1 ec_key public
                                     (half_size * 2) half_size of
                                Inl f \<Rightarrow> Inl f
                              | Inr (ret_val, public', w') \<Rightarrow>
                                  Inr (ret_val, Some ec_key, public',
                                       Some (half_size * 2), w')))))))"

text \<open>
  The \<^verbatim>\<open>switch (hash_nid)\<close> of \<^verbatim>\<open>ecdsa_sign\<close>: whether the hash size matches the
  hash identifier.
\<close>

definition hash_size_matches :: "uintn \<Rightarrow> uintn \<Rightarrow> bool" where
  "hash_size_matches hash_nid hash_size =
     (if hash_nid = CRYPTO_NID_SHA256 then hash_size = SHA256_DIGEST_SIZE
      else if hash_nid = CRYPTO_NID_SHA384 then hash_size = SHA384_DIGEST_SIZE
      else if hash_nid = CRYPTO_NID_SHA512 then hash_size = SHA512_DIGEST_SIZE
      else False)"

text \<open>
  \<^verbatim>\<open>ecdsa_sign\<close>. Here \<open>half_size\<close> is a \<^verbatim>\<open>uint8\<close>: \<^verbatim>\<open>half_size * 2\<close> and the
  offsets \<^verbatim>\<open>0 + half_size - r_size\<close> are computed in \<^verbatim>\<open>int\<close>. The size pointer is
  read without a check: a \<^verbatim>\<open>NULL\<close> there is the fault \<open>Null_dereference\<close>. The result
  is the returned \<^verbatim>\<open>boolean\<close>, the signature buffer, \<^verbatim>\<open>*sig_size\<close> and OpenSSL's
  state after the call.
\<close>

definition ecdsa_sign ::
  "('k, 'g, 'p, 'w) openssl \<Rightarrow> bool \<Rightarrow> 'w \<Rightarrow> 'k option \<Rightarrow> uintn \<Rightarrow> uint8 list option \<Rightarrow> uintn
     \<Rightarrow> uint8 list option \<Rightarrow> uintn option
     \<Rightarrow> fault + (boolean \<times> uint8 list option \<times> uintn option \<times> 'w)" where
  "ecdsa_sign ssl halting w ec_context hash_nid message_hash hash_size signature sig_size =
     (case ec_context of
        None \<Rightarrow> Inr (FALSE, signature, sig_size, w)
      | Some ec_key \<Rightarrow>
     (case message_hash of
        None \<Rightarrow> Inr (FALSE, signature, sig_size, w)
      | Some hash \<Rightarrow>
     (case signature of
        None \<Rightarrow> Inr (FALSE, signature, sig_size, w)
      | Some buffer \<Rightarrow>
     (case curve_half_size (EC_GROUP_get_curve_name ssl (EC_KEY_get0_group ssl ec_key)) of
        None \<Rightarrow> Inr (FALSE, signature, sig_size, w)
      | Some half_size \<Rightarrow>
     (case sig_size of
        None \<Rightarrow> Inl Null_dereference
      | Some size0 \<Rightarrow>
          (let required = ((ucast half_size :: int32) * 2 :: uintn)
           in if size0 < required then Inr (FALSE, signature, Some required, w)
              else
                (case zero_mem buffer required of
                   Inl f \<Rightarrow> Inl f
                 | Inr b0 \<Rightarrow>
                     if \<not> hash_size_matches hash_nid hash_size
                     then Inr (FALSE, Some b0, Some required, w)
                     else
                       (let (ecdsa_sig, w1) = ECDSA_do_sign ssl w hash (ucast hash_size) ec_key
                        in case ecdsa_sig of
                             None \<Rightarrow> Inr (FALSE, Some b0, Some required, w1)
                           | Some (r, s) \<Rightarrow>
                               (let r_size = BN_num_bytes ssl r;
                                    s_size = BN_num_bytes ssl s
                                in if sint r_size \<le> 0 \<or> sint s_size \<le> 0
                                   then Inr (FALSE, Some b0, Some required, w1)
                                   else
                                     (case ASSERT halting
                                             (r_size \<le> ucast half_size \<and> s_size \<le> ucast half_size) of
                                        Inl f \<Rightarrow> Inl f
                                      | Inr _ \<Rightarrow>
                                     (case write_bytes b0
                                             (sint (0 + (ucast half_size :: int32) - r_size))
                                             (BN_bn2bin ssl r) of
                                        Inl f \<Rightarrow> Inl f
                                      | Inr b1 \<Rightarrow>
                                     (case write_bytes b1
                                             (sint ((ucast half_size :: int32) + ucast half_size
                                                    - s_size))
                                             (BN_bn2bin ssl s) of
                                        Inl f \<Rightarrow> Inl f
                                      | Inr b2 \<Rightarrow>
                                          Inr (TRUE, Some b2, Some required, w1)))))))))))))"

text \<open>
  An OpenSSL stand-in for the examples: a key is its curve identifier, it has the public
  point (1, 2), allocation and key generation succeed, numbers are one byte long.
\<close>

definition example_openssl :: "(int32, int32, nat \<times> nat, nat) openssl" where
  "example_openssl =
     \<lparr>EC_KEY_get0_group = (\<lambda>key. key),
      EC_GROUP_get_curve_name = (\<lambda>group. group),
      EC_KEY_generate_key = (\<lambda>w key. (1, key, w + 1)),
      EC_KEY_get0_public_key = (\<lambda>key. Some (1, 2)),
      BN_new = (\<lambda>w. (True, w)),
      EC_POINT_get_affine_coordinates = (\<lambda>group point. (1, fst point, snd point)),
      BN_num_bytes = (\<lambda>n. 1),
      BN_bn2bin = (\<lambda>n. [word_of_nat n]),
      ECDSA_do_sign = (\<lambda>w hash hash_size key. (Some (3, 4), w + 1))\<rparr>"

text \<open>
  Where the token sits in an \<open>ERROR (RESPONSE_NOT_READY)\<close> message: third byte of the
  extended error data, which follows the four-byte header.
\<close>

definition response_not_ready_token :: "uint8 list \<Rightarrow> uint8" where
  "response_not_ready_token response = response ! 6"

text \<open>A context for the examples: token 255, a four-byte last request, an empty cache.\<close>

definition example_context :: spdm_context_t where
  "example_context =
     \<lparr>version = 0x11,
      connection_state = SPDM_CONNECTION_STATE_NEGOTIATED,
      response_state = SPDM_RESPONSE_STATE_NOT_READY,
      current_token = 0xFF,
      error_data = \<lparr>rd_exponent = 7, request_code = 0x81, token = 0xFE, rd_tm = 9\<rparr>,
      last_spdm_request = [0x11, 0x84, 0x00, 0x00, 0xAA, 0xBB],
      last_spdm_request_size = 4,
      cache_spdm_request = [0x01, 0x02, 0x03, 0x04, 0x05, 0x06],
      cache_spdm_request_size = 0\<rparr>"

text \<open>The same context after one and after two deferred requests (codes 0x84, 0x81).\<close>

definition example_context_2 :: spdm_context_t where
  "example_context_2 =
     \<lparr>version = 0x11,
      connection_state = SPDM_CONNECTION_STATE_NEGOTIATED,
      response_state = SPDM_RESPONSE_STATE_NOT_READY,
      current_token = 0,
      error_data = \<lparr>rd_exponent = 1, request_code = 0x84, token = 0xFF, rd_tm = 1\<rparr>,
      last_spdm_request = [0x11, 0x84, 0x00, 0x00, 0xAA, 0xBB],
      last_spdm_request_size = 4,
      cache_spdm_request = [0x11, 0x84, 0x00, 0x00, 0x05, 0x06],
      cache_spdm_request_size = 4\<rparr>"

definition example_context_3 :: spdm_context_t where
  "example_context_3 =
     \<lparr>version = 0x11,
      connection_state = SPDM_CONNECTION_STATE_NEGOTIATED,
      response_state = SPDM_RESPONSE_STATE_NOT_READY,
      current_token = 1,
      error_data = \<lparr>rd_exponent = 1, request_code = 0x81, token = 0, rd_tm = 1\<rparr>,
      last_spdm_request = [0x11, 0x84, 0x00, 0x00, 0xAA, 0xBB],
      last_spdm_request_size = 4,
      cache_spdm_request = [0x11, 0x84, 0x00, 0x00, 0x05, 0x06],
      cache_spdm_request_size = 4\<rparr>"

section \<open>Properties of the response-state handler\<close>

lemma copy_mem_in_bounds:
  "unat len \<le> length source \<Longrightarrow> unat len \<le> length destination \<Longrightarrow>
   copy_mem destination source len = Inr (take (unat len) source @ drop (unat len) destination)"
  by (simp add: copy_mem_def)

lemma uint8_succ_mod: "unat ((t :: uint8) + 1) = (unat t + 1) mod 256"
  by (simp add: unat_word_ariths)

lemma not_ready_new_request:
  assumes "response_state c = SPDM_RESPONSE_STATE_NOT_READY"
    and "req_code \<noteq> SPDM_RESPOND_IF_READY"
    and "spdm_responder_handle_response_state c req_code response_size response = Inr (st, c', sz, r)"
  shows "r = [version c, SPDM_ERROR, SPDM_ERROR_CODE_RESPONSE_NOT_READY, 0,
              1, req_code, current_token c, 1]
         \<and> token (error_data c') = current_token c
         \<and> current_token c' = current_token c + 1"
  using assms
  by (auto simp: spdm_responder_handle_response_state_def
      libspdm_generate_extended_error_response_def error_data_bytes_def
      sizeof_spdm_error_data_response_not_ready_t_def split: sum.splits)

text \<open>
  C1. In the state NotReady, for every request code other than \<open>RESPOND_IF_READY\<close> and
  every context whose last request lies within its request buffer and fits the cache
  buffer, the handler returns \<open>RETURN_SUCCESS\<close>; the reply is \<open>ERROR (RESPONSE_NOT_READY)\<close>
  followed by the four bytes RDExponent 1, the request code, the token the context held
  before the call, RDTM 1; the same four values are stored in \<open>error_data\<close>; the cache
  size becomes the last request's size and the first that many bytes of the cache become
  those of the last request; and \<open>current_token\<close> is the old token plus one (the token
  is a byte: 255 is followed by 0).
\<close>

theorem not_ready_emits_token_caches_request_and_increments:
  assumes "response_state c = SPDM_RESPONSE_STATE_NOT_READY"
    and "req_code \<noteq> SPDM_RESPOND_IF_READY"
    and "unat (last_spdm_request_size c) \<le> length (last_spdm_request c)"
    and "unat (last_spdm_request_size c) \<le> length (cache_spdm_request c)"
  shows "\<exists>c'. spdm_responder_handle_response_state c req_code response_size response
           = Inr (RETURN_SUCCESS, c', 8,
                  [version c, SPDM_ERROR, SPDM_ERROR_CODE_RESPONSE_NOT_READY, 0,
                   1, req_code, current_token c, 1])
         \<and> error_data c'
             = \<lparr>rd_exponent = 1, request_code = req_code, token = current_token c, rd_tm = 1\<rparr>
         \<and> cache_spdm_request_size c' = last_spdm_request_size c
         \<and> take (unat (last_spdm_request_size c)) (cache_spdm_request c')
             = take (unat (last_spdm_request_size c)) (last_spdm_request c)
         \<and> drop (unat (last_spdm_request_size c)) (cache_spdm_request c')
             = drop (unat (last_spdm_request_size c)) (cache_spdm_request c)
         \<and> current_token c' = current_token c + 1
         \<and> unat (current_token c') = (unat (current_token c) + 1) mod 256
         \<and> response_state c' = response_state c
         \<and> connection_state c' = connection_state c
         \<and> last_spdm_request c' = last_spdm_request c
         \<and> last_spdm_request_size c' = last_spdm_request_size c"
  using assms
  by (simp add: spdm_responder_handle_response_state_def copy_mem_in_bounds
      libspdm_generate_extended_error_response_def error_data_bytes_def
      sizeof_spdm_error_data_response_not_ready_t_def sizeof_spdm_error_response_t_def
      uint8_succ_mod)

theorem not_ready_emits_token_caches_request_and_increments_witness:
  "response_state example_context = SPDM_RESPONSE_STATE_NOT_READY
   \<and> (0x84 :: uint8) \<noteq> SPDM_RESPOND_IF_READY
   \<and> (\<exists>c'. spdm_responder_handle_response_state example_context 0x84 64 []
          = Inr (RETURN_SUCCESS, c', 8, [0x11, 0x7F, 0x42, 0, 1, 0x84, 0xFF, 1])
        \<and> error_data c' = \<lparr>rd_exponent = 1, request_code = 0x84, token = 0xFF, rd_tm = 1\<rparr>
        \<and> cache_spdm_request_size c' = 4
        \<and> cache_spdm_request c' = [0x11, 0x84, 0x00, 0x00, 0x05, 0x06]
        \<and> current_token c' = 0)"
  using not_ready_emits_token_caches_request_and_increments
          [of example_context "0x84" 64 "[]"]
  by (auto simp: example_context_def SPDM_RESPOND_IF_READY_def SPDM_ERROR_def
      SPDM_ERROR_CODE_RESPONSE_NOT_READY_def spdm_responder_handle_response_state_def
      copy_mem_def libspdm_generate_extended_error_response_def error_data_bytes_def
      sizeof_spdm_error_data_response_not_ready_t_def sizeof_spdm_error_response_t_def)

text \<open>
  C2. Two emissions of \<open>ERROR (RESPONSE_NOT_READY)\<close> in a row, each in the state NotReady
  for a request code other than \<open>RESPOND_IF_READY\<close>, the token untouched between the
  first call's end and the second call's start: the token in the second reply is the
  token in the first reply plus one modulo 256, in the message bytes and in the stored
  \<open>error_data\<close> alike.
\<close>

theorem consecutive_not_ready_tokens_differ_by_one:
  assumes "response_state c = SPDM_RESPONSE_STATE_NOT_READY"
    and "code1 \<noteq> SPDM_RESPOND_IF_READY"
    and "spdm_responder_handle_response_state c code1 size1 buf1 = Inr (st1, c1, sz1, r1)"
    and "response_state d = SPDM_RESPONSE_STATE_NOT_READY"
    and "current_token d = current_token c1"
    and "code2 \<noteq> SPDM_RESPOND_IF_READY"
    and "spdm_responder_handle_response_state d code2 size2 buf2 = Inr (st2, c2, sz2, r2)"
  shows "response_not_ready_token r2 = response_not_ready_token r1 + 1
         \<and> unat (response_not_ready_token r2) = (unat (response_not_ready_token r1) + 1) mod 256
         \<and> token (error_data c2) = token (error_data c1) + 1"
proof -
  from assms(1-3) have first:
    "response_not_ready_token r1 = current_token c" "token (error_data c1) = current_token c"
    "current_token c1 = current_token c + 1"
    using not_ready_new_request [of c code1 size1 buf1 st1 c1 sz1 r1]
    by (simp_all add: response_not_ready_token_def)
  from assms(4,6,7) have second:
    "response_not_ready_token r2 = current_token d" "token (error_data c2) = current_token d"
    using not_ready_new_request [of d code2 size2 buf2 st2 c2 sz2 r2]
    by (simp_all add: response_not_ready_token_def)
  from first second assms(5) show ?thesis
    by (simp add: uint8_succ_mod)
qed

theorem consecutive_not_ready_tokens_differ_by_one_witness:
  "spdm_responder_handle_response_state example_context 0x84 64 []
     = Inr (RETURN_SUCCESS, example_context_2, 8, [0x11, 0x7F, 0x42, 0, 1, 0x84, 0xFF, 1])
   \<and> spdm_responder_handle_response_state example_context_2 0x81 64 []
     = Inr (RETURN_SUCCESS, example_context_3, 8, [0x11, 0x7F, 0x42, 0, 1, 0x81, 0, 1])
   \<and> response_not_ready_token [0x11, 0x7F, 0x42, 0, 1, 0x81, 0, 1]
       = response_not_ready_token [0x11, 0x7F, 0x42, 0, 1, 0x84, 0xFF, 1] + 1
   \<and> unat (response_not_ready_token [0x11, 0x7F, 0x42, 0, 1, 0x81, 0, 1])
       = (unat (response_not_ready_token [0x11, 0x7F, 0x42, 0, 1, 0x84, 0xFF, 1]) + 1) mod 256
   \<and> token (error_data example_context_3) = token (error_data example_context_2) + 1"
proof -
  have state: "response_state example_context = SPDM_RESPONSE_STATE_NOT_READY"
    "response_state example_context_2 = SPDM_RESPONSE_STATE_NOT_READY"
    by (simp_all add: example_context_def example_context_2_def)
  have codes: "(0x84 :: uint8) \<noteq> SPDM_RESPOND_IF_READY" "(0x81 :: uint8) \<noteq> SPDM_RESPOND_IF_READY"
    by (simp_all add: SPDM_RESPOND_IF_READY_def)
  have call1: "spdm_responder_handle_response_state example_context 0x84 64 []
                 = Inr (RETURN_SUCCESS, example_context_2, 8, [0x11, 0x7F, 0x42, 0, 1, 0x84, 0xFF, 1])"
    by (simp add: example_context_def example_context_2_def SPDM_RESPOND_IF_READY_def SPDM_ERROR_def
        SPDM_ERROR_CODE_RESPONSE_NOT_READY_def spdm_responder_handle_response_state_def
        copy_mem_def libspdm_generate_extended_error_response_def error_data_bytes_def
        sizeof_spdm_error_data_response_not_ready_t_def sizeof_spdm_error_response_t_def)
  have call2: "spdm_responder_handle_response_state example_context_2 0x81 64 []
                 = Inr (RETURN_SUCCESS, example_context_3, 8, [0x11, 0x7F, 0x42, 0, 1, 0x81, 0, 1])"
    by (simp add: example_context_2_def example_context_3_def SPDM_RESPOND_IF_READY_def SPDM_ERROR_def
        SPDM_ERROR_CODE_RESPONSE_NOT_READY_def spdm_responder_handle_response_state_def
        copy_mem_def libspdm_generate_extended_error_response_def error_data_bytes_def
        sizeof_spdm_error_data_response_not_ready_t_def sizeof_spdm_error_response_t_def)
  have same: "current_token example_context_2 = current_token example_context_2" by (rule refl)
  note tokens = consecutive_not_ready_tokens_differ_by_one
         [OF state(1) codes(1) call1 state(2) same codes(2) call2]
  show ?thesis
    by (rule conjI [OF call1 conjI [OF call2 tokens]])
qed

text \<open>
  C3. In the state NotReady, a request with the code \<open>RESPOND_IF_READY\<close> leaves the whole
  context as it was, so \<open>error_data\<close>, the cached request, its size and the token are
  unchanged; the reply is \<open>ERROR (RESPONSE_NOT_READY)\<close> followed by the four bytes of
  the \<open>error_data\<close> stored before the call.
\<close>

theorem not_ready_respond_if_ready_reuses_error_data:
  assumes "response_state c = SPDM_RESPONSE_STATE_NOT_READY"
  shows "spdm_responder_handle_response_state c SPDM_RESPOND_IF_READY response_size response
           = Inr (RETURN_SUCCESS, c, 8,
                  [version c, SPDM_ERROR, SPDM_ERROR_CODE_RESPONSE_NOT_READY, 0,
                   rd_exponent (error_data c), request_code (error_data c),
                   token (error_data c), rd_tm (error_data c)])"
  using assms
  by (simp add: spdm_responder_handle_response_state_def
      libspdm_generate_extended_error_response_def error_data_bytes_def
      sizeof_spdm_error_data_response_not_ready_t_def sizeof_spdm_error_response_t_def)

theorem not_ready_respond_if_ready_reuses_error_data_witness:
  "response_state example_context = SPDM_RESPONSE_STATE_NOT_READY
   \<and> spdm_responder_handle_response_state example_context 0xFF 64 []
       = Inr (RETURN_SUCCESS, example_context, 8, [0x11, 0x7F, 0x42, 0, 7, 0x81, 0xFE, 9])"
  using not_ready_respond_if_ready_reuses_error_data [of example_context 64 "[]"]
  by (simp add: example_context_def SPDM_RESPOND_IF_READY_def SPDM_ERROR_def
      SPDM_ERROR_CODE_RESPONSE_NOT_READY_def)

text \<open>
  C4. In the state NeedResync, for every request code the handler returns
  \<open>RETURN_SUCCESS\<close> with the four-byte reply \<open>ERROR (REQUEST_RESYNCH)\<close>, and the context
  after the call is the context before it with \<open>connection_state\<close> set to NotStarted.
\<close>

theorem need_resync_replies_request_resynch_and_resets_connection:
  assumes "response_state c = SPDM_RESPONSE_STATE_NEED_RESYNC"
  shows "spdm_responder_handle_response_state c req_code response_size response
           = Inr (RETURN_SUCCESS, c\<lparr>connection_state := SPDM_CONNECTION_STATE_NOT_STARTED\<rparr>, 4,
                  [version c, SPDM_ERROR, SPDM_ERROR_CODE_REQUEST_RESYNCH, 0])"
  using assms
  by (simp add: spdm_responder_handle_response_state_def libspdm_generate_error_response_def
      spdm_set_connection_state_def sizeof_spdm_error_response_t_def)

theorem need_resync_replies_request_resynch_and_resets_connection_witness:
  "response_state (example_context\<lparr>response_state := SPDM_RESPONSE_STATE_NEED_RESYNC\<rparr>)
     = SPDM_RESPONSE_STATE_NEED_RESYNC
   \<and> (\<exists>c'. spdm_responder_handle_response_state
               (example_context\<lparr>response_state := SPDM_RESPONSE_STATE_NEED_RESYNC\<rparr>) 0x84 64 []
             = Inr (RETURN_SUCCESS, c', 4, [0x11, 0x7F, 0x43, 0])
           \<and> connection_state c' = SPDM_CONNECTION_STATE_NOT_STARTED
           \<and> connection_state example_context = SPDM_CONNECTION_STATE_NEGOTIATED)"
  using need_resync_replies_request_resynch_and_resets_connection
          [of "example_context\<lparr>response_state := SPDM_RESPONSE_STATE_NEED_RESYNC\<rparr>" "0x84" 64 "[]"]
  by (simp add: example_context_def SPDM_ERROR_def SPDM_ERROR_CODE_REQUEST_RESYNCH_def)

text \<open>
  C5. In the state Busy, for every request code the handler returns
  \<open>RETURN_SUCCESS\<close> with the four-byte reply \<open>ERROR (BUSY)\<close>, and the context after the
  call is the context before it: connection state, response state, token, error data and
  cached request are all unchanged.
\<close>

theorem busy_replies_error_busy_and_keeps_context:
  assumes "response_state c = SPDM_RESPONSE_STATE_BUSY"
  shows "spdm_responder_handle_response_state c req_code response_size response
           = Inr (RETURN_SUCCESS, c, 4, [version c, SPDM_ERROR, SPDM_ERROR_CODE_BUSY, 0])"
  using assms
  by (simp add: spdm_responder_handle_response_state_def libspdm_generate_error_response_def
      sizeof_spdm_error_response_t_def)

theorem busy_replies_error_busy_and_keeps_context_witness:
  "response_state (example_context\<lparr>response_state := SPDM_RESPONSE_STATE_BUSY\<rparr>)
     = SPDM_RESPONSE_STATE_BUSY
   \<and> spdm_responder_handle_response_state
       (example_context\<lparr>response_state := SPDM_RESPONSE_STATE_BUSY\<rparr>) 0x84 64 []
       = Inr (RETURN_SUCCESS, example_context\<lparr>response_state := SPDM_RESPONSE_STATE_BUSY\<rparr>,
              4, [0x11, 0x7F, 0x03, 0])"
  using busy_replies_error_busy_and_keeps_context
          [of "example_context\<lparr>response_state := SPDM_RESPONSE_STATE_BUSY\<rparr>" "0x84" 64 "[]"]
  by (simp add: example_context_def SPDM_ERROR_def SPDM_ERROR_CODE_BUSY_def)

text \<open>
  C6. In the state ProcessingEncap, the handler returns \<open>RETURN_SUCCESS\<close> with the
  four-byte reply \<open>ERROR (REQUEST_IN_FLIGHT)\<close> and leaves the context as it was. It does
  so whatever the request code, hence for every request that is neither
  \<open>ENCAPSULATED_RESPONSE_ACK\<close> nor other encapsulated traffic.
\<close>

theorem processing_encap_replies_request_in_flight:
  assumes "response_state c = SPDM_RESPONSE_STATE_PROCESSING_ENCAP"
  shows "spdm_responder_handle_response_state c req_code response_size response
           = Inr (RETURN_SUCCESS, c, 4,
                  [version c, SPDM_ERROR, SPDM_ERROR_CODE_REQUEST_IN_FLIGHT, 0])"
  using assms
  by (simp add: spdm_responder_handle_response_state_def libspdm_generate_error_response_def
      sizeof_spdm_error_response_t_def)

theorem processing_encap_replies_request_in_flight_witness:
  "response_state (example_context\<lparr>response_state := SPDM_RESPONSE_STATE_PROCESSING_ENCAP\<rparr>)
     = SPDM_RESPONSE_STATE_PROCESSING_ENCAP
   \<and> spdm_responder_handle_response_state
       (example_context\<lparr>response_state := SPDM_RESPONSE_STATE_PROCESSING_ENCAP\<rparr>) 0x84 64 []
       = Inr (RETURN_SUCCESS,
              example_context\<lparr>response_state := SPDM_RESPONSE_STATE_PROCESSING_ENCAP\<rparr>,
              4, [0x11, 0x7F, 0x08, 0])"
  using processing_encap_replies_request_in_flight
          [of "example_context\<lparr>response_state := SPDM_RESPONSE_STATE_PROCESSING_ENCAP\<rparr>"
              "0x84" 64 "[]"]
  by (simp add: example_context_def SPDM_ERROR_def SPDM_ERROR_CODE_REQUEST_IN_FLIGHT_def)

section \<open>Properties of the encapsulated error responses\<close>

lemma write_error_header_in_bounds:
  assumes "4 \<le> length response"
  shows "write_error_header response error_code error_data_byte
           = Inr ([SPDM_MESSAGE_VERSION_11, SPDM_ERROR, error_code, error_data_byte]
                  @ drop 4 response)"
proof -
  obtain a r1 where 1: "response = a # r1" using assms by (cases response) auto
  obtain b r2 where 2: "r1 = b # r2" using assms 1 by (cases r1) auto
  obtain c r3 where 3: "r2 = c # r3" using assms 1 2 by (cases r2) auto
  obtain d r4 where 4: "r3 = d # r4" using assms 1 2 3 by (cases r3) auto
  show ?thesis by (simp add: 1 2 3 4 write_error_header_def write_uint8_def)
qed

lemma uintn_header_plus_size:
  assumes "4 + unat (n :: uintn) \<le> unat (rs :: uintn)"
  shows "4 + n \<le> rs" and "unat (4 + n) = 4 + unat n"
proof -
  have "unat rs < 2 ^ 32" using unsigned_less [of rs] by simp
  with assms have lt: "4 + unat n < 2 ^ 32" by linarith
  have "unat (4 + n) = (4 + unat n) mod 2 ^ 32" by (simp add: unat_word_ariths)
  with lt show eq: "unat (4 + n) = 4 + unat n" by simp
  with assms show "4 + n \<le> rs" by (simp add: word_le_nat_alt)
qed

lemma encap_error_returns_success_only:
  "returned_status (spdm_generate_encap_error_response halting context error_code
      error_data_byte response_size response) \<in> {None, Some RETURN_SUCCESS}"
  by (simp add: returned_status_def spdm_generate_encap_error_response_def split: sum.splits)

lemma encap_extended_error_returns_success_only:
  "returned_status (spdm_generate_encap_extended_error_response halting context error_code
      error_data_byte n ext response_size response) \<in> {None, Some RETURN_SUCCESS}"
  by (simp add: returned_status_def spdm_generate_encap_extended_error_response_def
      split: sum.splits)

text \<open>
  C8. For every error code and error data byte, and every response buffer that is as
  large as the size handed in and holds the message: \<^verbatim>\<open>spdm_generate_encap_error_response\<close>
  returns \<open>RETURN_SUCCESS\<close>, sets the size to 4 and leaves in the first four bytes of
  the buffer the header version 1.1, ERROR, error code, error data;
  \<^verbatim>\<open>spdm_generate_encap_extended_error_response\<close> does the same, copies the
  extended error data to the bytes right after the header and sets the size to 4 plus
  the extended size. Neither function has a return value other than
  \<open>RETURN_SUCCESS\<close>, whatever its arguments.
\<close>

theorem encap_error_responses_header_size_and_status:
  "(4 \<le> unat response_size \<and> unat response_size \<le> length response \<longrightarrow>
      spdm_generate_encap_error_response halting context error_code error_data_byte
          response_size response
        = Inr (RETURN_SUCCESS, 4,
               [SPDM_MESSAGE_VERSION_11, SPDM_ERROR, error_code, error_data_byte]
                 @ drop 4 response))
   \<and> (4 + unat n \<le> unat response_size \<and> unat response_size \<le> length response
        \<and> unat n \<le> length ext \<longrightarrow>
      spdm_generate_encap_extended_error_response halting context error_code error_data_byte
          n ext response_size response
        = Inr (RETURN_SUCCESS, 4 + n,
               [SPDM_MESSAGE_VERSION_11, SPDM_ERROR, error_code, error_data_byte]
                 @ take (unat n) ext @ drop (4 + unat n) response)
      \<and> unat (4 + n) = 4 + unat n)
   \<and> returned_status (spdm_generate_encap_error_response halting context error_code
          error_data_byte response_size response) \<in> {None, Some RETURN_SUCCESS}
   \<and> returned_status (spdm_generate_encap_extended_error_response halting context error_code
          error_data_byte n ext response_size response) \<in> {None, Some RETURN_SUCCESS}"
proof (intro conjI impI)
  assume h: "4 \<le> unat response_size \<and> unat response_size \<le> length response"
  then have "4 \<le> response_size" by (simp add: word_le_nat_alt)
  moreover from h have "4 \<le> length response" by linarith
  ultimately show "spdm_generate_encap_error_response halting context error_code
      error_data_byte response_size response
        = Inr (RETURN_SUCCESS, 4,
               [SPDM_MESSAGE_VERSION_11, SPDM_ERROR, error_code, error_data_byte]
                 @ drop 4 response)"
    by (simp add: spdm_generate_encap_error_response_def ASSERT_def
        sizeof_spdm_error_response_t_def write_error_header_in_bounds)
next
  assume h: "4 + unat n \<le> unat response_size \<and> unat response_size \<le> length response
        \<and> unat n \<le> length ext"
  then have a: "4 + n \<le> response_size" and u: "unat (4 + n) = 4 + unat n"
    using uintn_header_plus_size [of n response_size] by simp_all
  from h have len: "4 \<le> length response" "unat n \<le> length response - 4" by linarith+
  show "unat (4 + n) = 4 + unat n" by (rule u)
  show "spdm_generate_encap_extended_error_response halting context error_code
      error_data_byte n ext response_size response
        = Inr (RETURN_SUCCESS, 4 + n,
               [SPDM_MESSAGE_VERSION_11, SPDM_ERROR, error_code, error_data_byte]
                 @ take (unat n) ext @ drop (4 + unat n) response)"
    using a len h
    by (simp add: spdm_generate_encap_extended_error_response_def ASSERT_def
        sizeof_spdm_error_response_t_def write_error_header_in_bounds copy_mem_def add.commute)
next
  show "returned_status (spdm_generate_encap_error_response halting context error_code
          error_data_byte response_size response) \<in> {None, Some RETURN_SUCCESS}"
    by (rule encap_error_returns_success_only)
next
  show "returned_status (spdm_generate_encap_extended_error_response halting context error_code
          error_data_byte n ext response_size response) \<in> {None, Some RETURN_SUCCESS}"
    by (rule encap_extended_error_returns_success_only)
qed

theorem encap_error_responses_header_size_and_status_witness:
  "spdm_generate_encap_error_response True () 0x05 0x09 6 [1, 2, 3, 4, 5, 6]
     = Inr (RETURN_SUCCESS, 4, [0x11, 0x7F, 0x05, 0x09, 5, 6])
   \<and> spdm_generate_encap_extended_error_response True () 0x42 0 2 [0xAA, 0xBB, 0xCC]
        7 [1, 2, 3, 4, 5, 6, 7]
     = Inr (RETURN_SUCCESS, 6, [0x11, 0x7F, 0x42, 0, 0xAA, 0xBB, 7])"
  using encap_error_responses_header_size_and_status
          [of 6 "[1, 2, 3, 4, 5, 6]" True "()" "0x05" "0x09" 2 "[0xAA, 0xBB, 0xCC]"]
        encap_error_responses_header_size_and_status
          [of 7 "[1, 2, 3, 4, 5, 6, 7]" True "()" "0x42" 0 2 "[0xAA, 0xBB, 0xCC]"]
  by (simp add: SPDM_MESSAGE_VERSION_11_def SPDM_ERROR_def)

section \<open>Properties of the dummy ChaCha20-Poly1305\<close>

lemma aead_chacha20_poly1305_halting_assert:
  "aead_chacha20_poly1305_encrypt True key key_size iv iv_size a_data a_data_size
       data_in data_in_size tag_out tag_size data_out data_out_size = Inl Assert_failed"
  "aead_chacha20_poly1305_decrypt True key key_size iv iv_size a_data a_data_size
       data_in data_in_size tag tag_size data_out data_out_size = Inl Assert_failed"
  by (simp_all add: aead_chacha20_poly1305_encrypt_def aead_chacha20_poly1305_decrypt_def
      ASSERT_def)

text \<open>
  C9. In the dummy crypto library, built so that the violated \<^verbatim>\<open>ASSERT (FALSE)\<close> lets
  execution continue, \<^verbatim>\<open>aead_chacha20_poly1305_encrypt\<close> and
  \<^verbatim>\<open>aead_chacha20_poly1305_decrypt\<close> return \<open>FALSE\<close> for every key, IV, additional
  data, input, tag and size, the documented sizes 32, 12 and 16 included, and write
  nothing. (Where the assertion halts, every call stops there: see the lemma above. In
  neither build does a call return \<open>TRUE\<close>.)
\<close>

theorem dummy_aead_chacha20_poly1305_always_false:
  assumes "\<not> halting"
  shows "aead_chacha20_poly1305_encrypt halting key key_size iv iv_size a_data a_data_size
             data_in data_in_size tag_out tag_size data_out data_out_size
           = Inr (FALSE, tag_out, data_out, data_out_size)
         \<and> aead_chacha20_poly1305_decrypt halting key key_size iv iv_size a_data a_data_size
             data_in data_in_size tag tag_size data_out data_out_size
           = Inr (FALSE, data_out, data_out_size)
         \<and> FALSE \<noteq> TRUE"
  using assms
  by (simp add: aead_chacha20_poly1305_encrypt_def aead_chacha20_poly1305_decrypt_def
      ASSERT_def FALSE_def TRUE_def)

theorem dummy_aead_chacha20_poly1305_always_false_witness:
  "aead_chacha20_poly1305_encrypt False (Some (replicate 32 0x0B)) 32 (Some (replicate 12 0x01)) 12
       (Some [0xA0, 0xA1]) 2 (Some [0x10, 0x20, 0x30]) 3
       (Some (replicate 16 0)) 16 (Some [0, 0, 0]) (Some 3)
     = Inr (FALSE, Some (replicate 16 0), Some [0, 0, 0], Some 3)
   \<and> aead_chacha20_poly1305_decrypt False (Some (replicate 32 0x0B)) 32
       (Some (replicate 12 0x01)) 12 (Some [0xA0, 0xA1]) 2 (Some [0x10, 0x20, 0x30]) 3
       (Some (replicate 16 0)) 16 (Some [0, 0, 0]) (Some 3)
     = Inr (FALSE, Some [0, 0, 0], Some 3)"
  using dummy_aead_chacha20_poly1305_always_false
          [of False "Some (replicate 32 0x0B)" 32 "Some (replicate 12 0x01)" 12
              "Some [0xA0, 0xA1]" 2 "Some [0x10, 0x20, 0x30]" 3
              "Some (replicate 16 0)" 16 "Some [0, 0, 0]" "Some 3" "Some (replicate 16 0)"]
  by simp

section \<open>Properties of the SHA-384 and SHA-512 wrappers\<close>

lemma sha_update_rejects:
  assumes "(data = None \<and> data_size \<noteq> 0) \<or> INT_MAX < data_size \<or> ctx = None"
  shows "sha384_update lib ctx data data_size = (FALSE, ctx, [])"
    and "sha512_update lib ctx data data_size = (FALSE, ctx, [])"
  using assms by (auto simp: sha384_update_def sha512_update_def split: option.splits)

lemma sha_hash_all_rejects:
  assumes "(data = None \<and> data_size \<noteq> 0) \<or> INT_MAX < data_size \<or> hash_value = None"
  shows "sha384_hash_all lib data data_size hash_value = (FALSE, hash_value, [])"
    and "sha512_hash_all lib data data_size hash_value = (FALSE, hash_value, [])"
  using assms by (auto simp: sha384_hash_all_def sha512_hash_all_def split: option.splits)

lemma sha_update_calls_null_free:
  "list_all null_free_call (snd (snd (sha384_update lib ctx data data_size)))"
  "list_all null_free_call (snd (snd (sha512_update lib ctx data data_size)))"
  by (auto simp: sha384_update_def sha512_update_def
      split: option.splits prod.splits)

lemma sha_hash_all_calls_null_free:
  "list_all null_free_call (snd (snd (sha384_hash_all lib data data_size hash_value)))"
  "list_all null_free_call (snd (snd (sha512_hash_all lib data data_size hash_value)))"
  by (auto simp: sha384_hash_all_def sha512_hash_all_def
      split: option.splits prod.splits)

lemma sha_calls_need_pointers:
  "snd (snd (sha384_update lib None data data_size)) = []"
  "snd (snd (sha512_update lib None data data_size)) = []"
  "snd (snd (sha384_hash_all lib data data_size None)) = []"
  "snd (snd (sha512_hash_all lib data data_size None)) = []"
  by (simp_all add: sha384_update_def sha512_update_def sha384_hash_all_def sha512_hash_all_def)

text \<open>
  C10. \<^verbatim>\<open>sha384_update\<close>, \<^verbatim>\<open>sha512_update\<close>, \<^verbatim>\<open>sha384_hash_all\<close> and
  \<^verbatim>\<open>sha512_hash_all\<close> return \<open>FALSE\<close> without a call into mbedTLS, and leave the
  context or the hash buffer as it was, when the data pointer is \<^verbatim>\<open>NULL\<close> with a
  nonzero size, when the size exceeds \<^verbatim>\<open>INT_MAX\<close>, and when the context pointer (for
  the updates) or the hash pointer (for the one-shot hashes) is \<^verbatim>\<open>NULL\<close>. Every call
  they do make into mbedTLS hands over a context or hash buffer that is there, a size of
  at most \<^verbatim>\<open>INT_MAX\<close>, and a data pointer that is \<^verbatim>\<open>NULL\<close> only with the size 0.
\<close>

theorem sha_wrappers_reject_null_and_oversized_input:
  "((data = None \<and> data_size \<noteq> 0) \<or> INT_MAX < data_size \<or> ctx = None \<longrightarrow>
      sha384_update lib ctx data data_size = (FALSE, ctx, [])
      \<and> sha512_update lib ctx data data_size = (FALSE, ctx, []))
   \<and> ((data = None \<and> data_size \<noteq> 0) \<or> INT_MAX < data_size \<or> hash_value = None \<longrightarrow>
      sha384_hash_all lib data data_size hash_value = (FALSE, hash_value, [])
      \<and> sha512_hash_all lib data data_size hash_value = (FALSE, hash_value, []))
   \<and> list_all null_free_call (snd (snd (sha384_update lib ctx data data_size)))
   \<and> list_all null_free_call (snd (snd (sha512_update lib ctx data data_size)))
   \<and> list_all null_free_call (snd (snd (sha384_hash_all lib data data_size hash_value)))
   \<and> list_all null_free_call (snd (snd (sha512_hash_all lib data data_size hash_value)))"
  using sha_update_rejects [of data data_size ctx lib]
    sha_hash_all_rejects [of data data_size hash_value lib]
    sha_update_calls_null_free [of lib ctx data data_size]
    sha_hash_all_calls_null_free [of lib data data_size hash_value]
  by blast

theorem sha_wrappers_reject_null_and_oversized_input_witness:
  "sha384_update example_mbedtls (Some 7) None 5 = (FALSE, Some 7, [])
   \<and> sha512_update example_mbedtls (Some 7) None 5 = (FALSE, Some 7, [])
   \<and> sha384_hash_all example_mbedtls None 5 (Some [0, 0]) = (FALSE, Some [0, 0], [])
   \<and> sha512_hash_all example_mbedtls None 5 (Some [0, 0]) = (FALSE, Some [0, 0], [])
   \<and> sha384_update example_mbedtls (Some 7) (Some [1, 2]) 0x80000000 = (FALSE, Some 7, [])
   \<and> sha512_hash_all example_mbedtls (Some [1, 2]) 0x80000000 (Some [0, 0])
       = (FALSE, Some [0, 0], [])
   \<and> sha512_update example_mbedtls None (Some [1, 2]) 2 = (FALSE, None, [])
   \<and> sha384_hash_all example_mbedtls (Some [1, 2]) 2 None = (FALSE, None, [])"
  using sha_wrappers_reject_null_and_oversized_input
          [of None 5 "Some 7" example_mbedtls "Some [0, 0]"]
        sha_wrappers_reject_null_and_oversized_input
          [of "Some [1, 2]" "0x80000000" "Some 7" example_mbedtls "Some [0, 0]"]
        sha_wrappers_reject_null_and_oversized_input
          [of "Some [1, 2]" 2 None example_mbedtls None]
  by (simp add: INT_MAX_def)

lemma sha_wrappers_accept_example:
  "sha384_update example_mbedtls (Some 7) (Some [1, 2]) 2
     = (TRUE, Some 7, [Call_sha512_update_ret 7 (Some [1, 2]) 2])"
  "sha512_hash_all example_mbedtls None 0 (Some [0, 0])
     = (TRUE, Some [0, 0], [Call_sha512_ret None 0 [0, 0] FALSE])"
  by (simp_all add: sha384_update_def sha512_hash_all_def example_mbedtls_def INT_MAX_def)

section \<open>Properties of the elliptic curve wrappers\<close>

lemma curve_half_size_values:
  assumes "curve_half_size nid = Some half"
  shows "(ucast half * 2 :: uintn)
           = (if nid = NID_X9_62_prime256v1 then 64 else if nid = NID_secp384r1 then 96 else 132)"
    and "(nid = NID_X9_62_prime256v1 \<or> nid = NID_secp384r1 \<or> nid = NID_secp521r1)"
  using assms by (auto simp: curve_half_size_def split: if_splits)

text \<open>
  What the three wrappers do with a size that is too small, for any OpenSSL behind
  them: the returned value is \<open>FALSE\<close>, and the lemmas say in which cases the size
  parameter receives twice the half size.
\<close>

lemma ec_get_pub_key_too_small:
  assumes "curve_half_size (EC_GROUP_get_curve_name ssl (EC_KEY_get0_group ssl ec_key)) = Some half"
    and "size0 < ucast half * 2"
  shows "ec_get_pub_key ssl halting w (Some ec_key) public_key (Some size0)
           = Inr (FALSE, public_key,
                  if public_key = None \<and> size0 \<noteq> 0 then Some size0 else Some (ucast half * 2), w)"
  using assms by (auto simp: ec_get_pub_key_def Let_def)

lemma ec_generate_key_too_small:
  assumes "curve_half_size (EC_GROUP_get_curve_name ssl (EC_KEY_get0_group ssl ec_key)) = Some half"
    and "size0 < ucast half * 2"
    and "EC_KEY_generate_key ssl w ec_key0 = (ret, ec_key, w1)"
  shows "ec_generate_key ssl halting w (Some ec_key0) public_key (Some size0)
           = (if public_key = None \<and> size0 \<noteq> 0
              then Inr (FALSE, Some ec_key0, public_key, Some size0, w)
              else if (ucast ret :: boolean) = 0
              then Inr (FALSE, Some ec_key, public_key, Some size0, w1)
              else Inr (FALSE, Some ec_key, public_key, Some (ucast half * 2), w1))"
  using assms by (auto simp: ec_generate_key_def Let_def)

lemma ecdsa_sign_too_small:
  assumes "curve_half_size (EC_GROUP_get_curve_name ssl (EC_KEY_get0_group ssl ec_key)) = Some half"
    and "size0 < ucast half * 2"
  shows "ecdsa_sign ssl halting w (Some ec_key) hash_nid message_hash hash_size signature (Some size0)
           = Inr (FALSE, signature,
                  if message_hash = None \<or> signature = None then Some size0
                  else Some (ucast half * 2), w)"
  using assms by (auto simp: ecdsa_sign_def Let_def split: option.splits)

lemma ecdsa_sign_null_signature:
  "ecdsa_sign ssl halting w (Some ec_key) hash_nid (Some hash) hash_size None sig_size
     = Inr (FALSE, None, sig_size, w)"
  by (simp add: ecdsa_sign_def)

lemma ec_generate_key_null_buffer_nonzero_size:
  "size0 \<noteq> 0 \<Longrightarrow>
   ec_generate_key ssl halting w (Some ec_key0) None (Some size0)
     = Inr (FALSE, Some ec_key0, None, Some size0, w)"
  by (simp add: ec_generate_key_def)

text \<open>
  C7. For an EC context over P-256, P-384 or P-521 and a size handed in that is smaller
  than twice the half size (64, 96 or 132), the three wrappers are to return \<open>FALSE\<close>
  and store the required size in the size parameter, as the descriptions of
  \<^verbatim>\<open>ec_generate_key\<close> and \<^verbatim>\<open>ecdsa_sign\<close> promise for a buffer that is too small.
  \<^verbatim>\<open>ecdsa_sign\<close> does not: on P-384, asked for the size with a \<^verbatim>\<open>NULL\<close> signature
  buffer and the size 0, it returns \<open>FALSE\<close> at its check \<^verbatim>\<open>signature == NULL\<close> and
  leaves the size at 0 instead of 96, while \<^verbatim>\<open>ec_get_pub_key\<close> and
  \<^verbatim>\<open>ec_generate_key\<close> answer the same question with 96. With a \<^verbatim>\<open>NULL\<close> buffer and
  the size 10, \<^verbatim>\<open>ec_generate_key\<close> in turn returns \<open>FALSE\<close> before anything else
  and leaves the size at 10.
\<close>

theorem ecdsa_sign_size_query_leaves_size_unset:
  "curve_half_size (EC_GROUP_get_curve_name example_openssl
      (EC_KEY_get0_group example_openssl NID_secp384r1)) = Some 48
   \<and> (0 :: uintn) < 96 \<and> (10 :: uintn) < 96
   \<and> ecdsa_sign example_openssl True 0 (Some NID_secp384r1) CRYPTO_NID_SHA384
         (Some (replicate 48 1)) 48 None (Some 0)
       = Inr (FALSE, None, Some 0, 0)
   \<and> ec_get_pub_key example_openssl True 0 (Some NID_secp384r1) None (Some 0)
       = Inr (FALSE, None, Some 96, 0)
   \<and> ec_generate_key example_openssl True 0 (Some NID_secp384r1) None (Some 0)
       = Inr (FALSE, Some NID_secp384r1, None, Some 96, 1)
   \<and> ec_generate_key example_openssl True 0 (Some NID_secp384r1) None (Some 10)
       = Inr (FALSE, Some NID_secp384r1, None, Some 10, 0)"
  by (simp add: ec_get_pub_key_def ec_generate_key_def ecdsa_sign_def
      example_openssl_def curve_half_size_def
      NID_X9_62_prime256v1_def NID_secp384r1_def NID_secp521r1_def)

lemma ec_wrappers_report_size_with_buffer_example:
  "ec_get_pub_key example_openssl True 0 (Some NID_secp521r1) (Some [5, 6, 7]) (Some 131)
     = Inr (FALSE, Some [5, 6, 7], Some 132, 0)"
  "ec_generate_key example_openssl True 0 (Some NID_secp521r1) (Some [5, 6, 7]) (Some 131)
     = Inr (FALSE, Some NID_secp521r1, Some [5, 6, 7], Some 132, 1)"
  "ecdsa_sign example_openssl True 0 (Some NID_secp521r1) CRYPTO_NID_SHA512 (Some [1, 2]) 64
       (Some [5, 6, 7]) (Some 131)
     = Inr (FALSE, Some [5, 6, 7], Some 132, 0)"
  by (simp_all add: ec_get_pub_key_def ec_generate_key_def ecdsa_sign_def
      example_openssl_def curve_half_size_def
      NID_X9_62_prime256v1_def NID_secp384r1_def NID_secp521r1_def)

end
